theory Spec2Isabelle
  imports Complex_Main "HOL-Library.Sublist"
begin

section \<open>HawkSightAI: the agents of \<^verbatim>\<open>agents/agents.py\<close>\<close>

subsection \<open>Values, errors, session state\<close>

text \<open>
  Python values that travel through the agents (\<^verbatim>\<open>Any\<close>): \<^verbatim>\<open>None\<close>, strings,
  dictionaries with string keys (in insertion order), and the results of the tool
  functions, which the agents never inspect (\<open>VData\<close>).
\<close>

datatype 'a val =
    VNone
  | VStr string
  | VDict "(string \<times> 'a val) list"
  | VData 'a

text \<open>Exceptions. \<open>OtherError\<close> stands for any exception kind not named by the project.\<close>

datatype error =
    RuntimeError string
  | DataAccessError
  | WriteError
  | ConfigurationError
  | OtherError string

type_synonym 'a dict = "string \<rightharpoonup> 'a val"

text \<open>\<^verbatim>\<open>d.get(k)\<close>: the value stored under \<open>k\<close>, \<^verbatim>\<open>None\<close> when the key is missing.\<close>

definition dict_get :: "'a dict \<Rightarrow> string \<Rightarrow> 'a val" where
  "dict_get d k = (case d k of None \<Rightarrow> VNone | Some v \<Rightarrow> v)"

record 'a session =
  state :: "'a dict"

subsection \<open>Wall clock: \<^verbatim>\<open>datetime.datetime.utcnow().isoformat()\<close>\<close>

record datetime =
  year :: nat
  month :: nat
  day :: nat
  hour :: nat
  minute :: nat
  second :: nat
  microsecond :: nat

definition digit_char :: "nat \<Rightarrow> char" where
  "digit_char d = ''0123456789'' ! (d mod 10)"

text \<open>\<^verbatim>\<open>str(n)\<close> of a non-negative integer.\<close>

function dec :: "nat \<Rightarrow> string" where
  "dec n = (if n < 10 then [digit_char n] else dec (n div 10) @ [digit_char (n mod 10)])"
  by pat_completeness auto
termination
  by (relation "measure (\<lambda>n. n)") auto

declare dec.simps [simp del]

text \<open>\<^verbatim>\<open>"%0wd" % n\<close>: at least \<open>w\<close> characters, padded with zeros on the left.\<close>

definition zfill :: "nat \<Rightarrow> string \<Rightarrow> string" where
  "zfill w s = replicate (w - length s) (CHR ''0'') @ s"

text \<open>
  \<^verbatim>\<open>datetime.isoformat()\<close> of a naive datetime (\<^verbatim>\<open>utcnow()\<close> carries no tzinfo):
  \<^verbatim>\<open>YYYY-MM-DDTHH:MM:SS\<close>, followed by \<^verbatim>\<open>.ffffff\<close> when the microsecond is not 0.
  No zone designator is written.
\<close>

definition isoformat :: "datetime \<Rightarrow> string" where
  "isoformat dt =
     zfill 4 (dec (year dt)) @ ''-'' @ zfill 2 (dec (month dt)) @ ''-'' @ zfill 2 (dec (day dt))
     @ ''T'' @ zfill 2 (dec (hour dt)) @ '':'' @ zfill 2 (dec (minute dt)) @ '':''
     @ zfill 2 (dec (second dt))
     @ (if microsecond dt = 0 then [] else ''.'' @ zfill 6 (dec (microsecond dt)))"

subsection \<open>The tool functions and the clock, as the agents see them\<close>

text \<open>
  \<^verbatim>\<open>tools/data_tools.py\<close> is imported by the agents. Each tool takes its arguments and
  the outside world \<open>'w\<close> (file system), and returns its result or raises, together with
  the world it leaves behind. \<open>utcnow\<close> reads the clock of that world.
\<close>

record ('w, 'a) env =
  profile_data :: "'a val \<Rightarrow> 'w \<Rightarrow> (error + 'a val) \<times> 'w"
  detect_anomalies_and_drift :: "'a val \<Rightarrow> 'a val \<Rightarrow> 'w \<Rightarrow> (error + 'a val) \<times> 'w"
  detect_pii :: "'a val \<Rightarrow> 'w \<Rightarrow> (error + 'a val) \<times> 'w"
  sync_tables :: "'a val \<Rightarrow> 'w \<Rightarrow> (error + 'a val) \<times> 'w"
  generate_lineage_graph :: "'w \<Rightarrow> (error + 'a val) \<times> 'w"
  save_governance_report :: "'a val \<Rightarrow> 'w \<Rightarrow> (error + 'a val) \<times> 'w"
  utcnow :: "'w \<Rightarrow> datetime"

subsection \<open>The five agents\<close>

text \<open>
  \<^verbatim>\<open>act(self, request, session)\<close> returns its result dictionary or raises; the session
  state and the world after the call are returned in both cases. An exception raised by
  a tool leaves \<^verbatim>\<open>act\<close> at once, before the assignment to \<^verbatim>\<open>session.state\<close>.
\<close>

type_synonym ('w, 'a) act =
  "('w, 'a) env \<Rightarrow> 'a dict \<Rightarrow> 'a session \<Rightarrow> 'w \<Rightarrow> (error + 'a val) \<times> 'a session \<times> 'w"

definition DataProfilerAgent_act :: "('w, 'a) act" where
  "DataProfilerAgent_act env request session w =
     (let file_path = dict_get request ''file_path'' in
      case profile_data env file_path w of
        (Inl e, w') \<Rightarrow> (Inl e, session, w')
      | (Inr profile, w') \<Rightarrow>
          (Inr (VDict [(''profile'', profile)]),
           session\<lparr>state := (state session)(''profile'' \<mapsto> profile)\<rparr>, w'))"

definition DriftAnomalyAgent_act :: "('w, 'a) act" where
  "DriftAnomalyAgent_act env request session w =
     (let file_path = dict_get request ''file_path'';
          baseline_profile = dict_get (state session) ''baseline_profile'' in
      case detect_anomalies_and_drift env file_path baseline_profile w of
        (Inl e, w') \<Rightarrow> (Inl e, session, w')
      | (Inr anomalies, w') \<Rightarrow>
          (Inr (VDict [(''anomalies'', anomalies)]),
           session\<lparr>state := (state session)(''anomalies'' \<mapsto> anomalies)\<rparr>, w'))"

definition ComplianceAgent_act :: "('w, 'a) act" where
  "ComplianceAgent_act env request session w =
     (let file_path = dict_get request ''file_path'' in
      case detect_pii env file_path w of
        (Inl e, w') \<Rightarrow> (Inl e, session, w')
      | (Inr issues, w') \<Rightarrow>
          (Inr (VDict [(''issues'', issues)]),
           session\<lparr>state := (state session)(''compliance_issues'' \<mapsto> issues)\<rparr>, w'))"

definition SyncRepairAgent_act :: "('w, 'a) act" where
  "SyncRepairAgent_act env request session w =
     (let file_path = dict_get request ''file_path'' in
      case sync_tables env file_path w of
        (Inl e, w') \<Rightarrow> (Inl e, session, w')
      | (Inr cleaned_path, w') \<Rightarrow>
          (Inr (VDict [(''cleaned_path'', cleaned_path)]),
           session\<lparr>state := (state session)(''cleaned_path'' \<mapsto> cleaned_path)\<rparr>, w'))"

definition ReportingAgent_act :: "('w, 'a) act" where
  "ReportingAgent_act env request session w =
     (let profile = dict_get (state session) ''profile'';
          anomalies = dict_get (state session) ''anomalies'';
          issues = dict_get (state session) ''compliance_issues'';
          cleaned_path = dict_get (state session) ''cleaned_path'' in
      case generate_lineage_graph env w of
        (Inl e, w1) \<Rightarrow> (Inl e, session, w1)
      | (Inr lineage, w1) \<Rightarrow>
          (let report = VDict
                 [(''timestamp'', VStr (isoformat (utcnow env w1))),
                  (''profile'', profile),
                  (''anomalies'', anomalies),
                  (''compliance_issues'', issues),
                  (''cleaned_path'', cleaned_path),
                  (''lineage'', lineage)] in
           case save_governance_report env report w1 of
             (Inl e, w2) \<Rightarrow> (Inl e, session, w2)
           | (Inr report_path, w2) \<Rightarrow>
               (Inr (VDict [(''report_path'', report_path), (''report'', report)]),
                session\<lparr>state := (state session)(''report_path'' \<mapsto> report_path)\<rparr>, w2)))"

subsection \<open>The orchestrators\<close>

text \<open>
  The sub-agents of a \<^verbatim>\<open>SequentialAgent\<close>: the five classes above, or an
  \<^verbatim>\<open>LlmAgent\<close> with its model, name, tool names and output key (the instruction
  text given to the language model is left out).
\<close>

datatype agent =
    DataProfilerAgent
  | DriftAnomalyAgent
  | ComplianceAgent
  | SyncRepairAgent
  | ReportingAgent
  | LlmAgent string string "string list" string

datatype orchestrator = SequentialAgent string string "agent list"

fun sub_agents :: "orchestrator \<Rightarrow> agent list" where
  "sub_agents (SequentialAgent n d subs) = subs"


text \<open>
  The module defines \<^verbatim>\<open>create_eagle_agent\<close> and \<^verbatim>\<open>create_llm_eagle_agent\<close> twice,
  under \<^verbatim>\<open>if ADK_AVAILABLE:\<close> and under its \<^verbatim>\<open>else:\<close>; \<^verbatim>\<open>ADK_AVAILABLE\<close> is
  \<^verbatim>\<open>False\<close> exactly when the import of the agent framework raised \<^verbatim>\<open>ImportError\<close>.
\<close>

definition create_eagle_agent :: "bool \<Rightarrow> error + orchestrator" where
  "create_eagle_agent ADK_AVAILABLE =
     (if ADK_AVAILABLE then
        (if \<not> ADK_AVAILABLE
         then Inl (RuntimeError ''Google ADK is not available. Install google-adk to use agents.'')
         else Inr (SequentialAgent ''EagleAgent''
           ''Master orchestrator that profiles data, detects drift & anomalies, checks compliance, repairs data, and reports.''
           [DataProfilerAgent, DriftAnomalyAgent, ComplianceAgent, SyncRepairAgent,
            ReportingAgent]))
      else Inl (RuntimeError ''Google ADK is not available. Install google-adk to use agents.''))"

definition create_llm_eagle_agent :: "bool \<Rightarrow> string \<Rightarrow> error + orchestrator" where
  "create_llm_eagle_agent ADK_AVAILABLE model =
     (if ADK_AVAILABLE then
        (let data_profiler = LlmAgent model ''DataProfilerLLM'' [''profile_data''] ''profile'';
             drift_anomaly = LlmAgent model ''DriftAnomalyLLM'' [''detect_anomalies_and_drift'']
                               ''anomalies'';
             compliance = LlmAgent model ''ComplianceLLM'' [''detect_pii'']
                            ''compliance_issues'';
             sync_repair = LlmAgent model ''SyncRepairLLM'' [''sync_tables''] ''cleaned_path'';
             report_agent = LlmAgent model ''ReportingLLM''
                              [''generate_lineage_graph'', ''compile_report'',
                               ''save_governance_report'']
                              ''report_path''
         in Inr (SequentialAgent ''EagleAgentLLM''
           ''Sequential orchestrator that profiles data, detects drift & anomalies, checks compliance, cleans data, and generates a governance report.''
           [data_profiler, drift_anomaly, compliance, sync_repair, report_agent]))
      else Inl (RuntimeError
                  ''Google ADK is not available. Install google-adk to use LLM agents.''))"

text \<open>
  Modelled from the spec: the orchestrator (sections 2 and 5) is an external
  collaborator, the agent framework's \<^verbatim>\<open>SequentialAgent\<close>, and its code is not among
  the sources. By the spec it invokes the stages in sequence, passing the request and
  the shared run context, and each stage runs to completion before the next begins.
  A stage of the deterministic pipeline is invoked through its \<^verbatim>\<open>act\<close>; what an
  \<^verbatim>\<open>LlmAgent\<close> does is decided by the language model and is the parameter \<open>llm\<close>.
  An exception of a stage is not caught: it ends the run.
\<close>

type_synonym ('w, 'a) behaviour =
  "'a dict \<Rightarrow> 'a session \<Rightarrow> 'w \<Rightarrow> (error + 'a val) \<times> 'a session \<times> 'w"

definition agent_act :: "('w, 'a) env \<Rightarrow> (agent \<Rightarrow> ('w, 'a) behaviour) \<Rightarrow> agent \<Rightarrow>
    ('w, 'a) behaviour" where
  "agent_act env llm a =
     (case a of
        DataProfilerAgent \<Rightarrow> DataProfilerAgent_act env
      | DriftAnomalyAgent \<Rightarrow> DriftAnomalyAgent_act env
      | ComplianceAgent \<Rightarrow> ComplianceAgent_act env
      | SyncRepairAgent \<Rightarrow> SyncRepairAgent_act env
      | ReportingAgent \<Rightarrow> ReportingAgent_act env
      | LlmAgent model name tools output_key \<Rightarrow> llm a)"

text \<open>
  Modelled from the spec: one run of the stages in sequence on the shared run context
  (sections 2 and 5); the result is the exception that ended the run, if any, with the
  run context and the world the run leaves behind.
\<close>

fun run_sub_agents :: "('w, 'a) env \<Rightarrow> (agent \<Rightarrow> ('w, 'a) behaviour) \<Rightarrow> agent list \<Rightarrow>
    'a dict \<Rightarrow> 'a session \<Rightarrow> 'w \<Rightarrow> error option \<times> 'a session \<times> 'w" where
  "run_sub_agents env llm [] request session w = (None, session, w)"
| "run_sub_agents env llm (a # rest) request session w =
     (case agent_act env llm a request session w of
        (Inl e, session', w') \<Rightarrow> (Some e, session', w')
      | (Inr r, session', w') \<Rightarrow> run_sub_agents env llm rest request session' w')"

definition run :: "('w, 'a) env \<Rightarrow> (agent \<Rightarrow> ('w, 'a) behaviour) \<Rightarrow> orchestrator \<Rightarrow>
    'a dict \<Rightarrow> 'a session \<Rightarrow> 'w \<Rightarrow> error option \<times> 'a session \<times> 'w" where
  "run env llm orch = run_sub_agents env llm (sub_agents orch)"



subsection \<open>Error kinds\<close>



subsection \<open>Reading a timestamp back\<close>

text \<open>
  What ``parseable as an ISO-8601 instant'' is taken to mean: the extended format
  \<^verbatim>\<open>YYYY-MM-DDThh:mm:ss\<close>, an optional fraction \<^verbatim>\<open>.ffffff\<close> of six digits, an
  optional designator \<^verbatim>\<open>Z\<close>, and field values that name a calendar date and a time
  of day. The parser returns the fields and whether the designator was there.
\<close>

definition digit_val :: "char \<Rightarrow> nat option" where
  "digit_val c = map_of
     [(CHR ''0'', 0), (CHR ''1'', 1), (CHR ''2'', 2), (CHR ''3'', 3), (CHR ''4'', 4),
      (CHR ''5'', 5), (CHR ''6'', 6), (CHR ''7'', 7), (CHR ''8'', 8), (CHR ''9'', 9)] c"

fun parse_digits :: "nat \<Rightarrow> string \<Rightarrow> nat option" where
  "parse_digits acc [] = Some acc"
| "parse_digits acc (c # cs) =
     (case digit_val c of None \<Rightarrow> None | Some d \<Rightarrow> parse_digits (10 * acc + d) cs)"

definition take_number :: "nat \<Rightarrow> string \<Rightarrow> (nat \<times> string) option" where
  "take_number w s =
     (if length s < w then None
      else map_option (\<lambda>n. (n, drop w s)) (parse_digits 0 (take w s)))"

definition expect :: "char \<Rightarrow> string \<Rightarrow> string option" where
  "expect c s = (case s of [] \<Rightarrow> None | x # xs \<Rightarrow> if x = c then Some xs else None)"

definition leap_year :: "nat \<Rightarrow> bool" where
  "leap_year y = (y mod 4 = 0 \<and> (y mod 100 \<noteq> 0 \<or> y mod 400 = 0))"

definition days_in_month :: "nat \<Rightarrow> nat \<Rightarrow> nat" where
  "days_in_month y m =
     (if m = 2 then (if leap_year y then 29 else 28)
      else if m = 4 \<or> m = 6 \<or> m = 9 \<or> m = 11 then 30 else 31)"

text \<open>The values a \<^verbatim>\<open>datetime\<close> object can hold (\<^verbatim>\<open>MINYEAR\<close> is 1, \<^verbatim>\<open>MAXYEAR\<close> 9999).\<close>

definition valid_datetime :: "datetime \<Rightarrow> bool" where
  "valid_datetime dt =
     (1 \<le> year dt \<and> year dt \<le> 9999 \<and> 1 \<le> month dt \<and> month dt \<le> 12 \<and>
      1 \<le> day dt \<and> day dt \<le> days_in_month (year dt) (month dt) \<and>
      hour dt < 24 \<and> minute dt < 60 \<and> second dt < 60 \<and> microsecond dt < 1000000)"

definition parse_fraction :: "string \<Rightarrow> (nat \<times> string) option" where
  "parse_fraction s =
     (case s of
        [] \<Rightarrow> Some (0, [])
      | c # cs \<Rightarrow> if c = CHR ''.'' then take_number 6 cs else Some (0, s))"

definition parse_designator :: "string \<Rightarrow> bool option" where
  "parse_designator s = (if s = [] then Some False else if s = ''Z'' then Some True else None)"

definition parse_iso8601 :: "string \<Rightarrow> (datetime \<times> bool) option" where
  "parse_iso8601 s0 =
     Option.bind (take_number 4 s0) (\<lambda>(y, s1).
     Option.bind (expect (CHR ''-'') s1) (\<lambda>s2.
     Option.bind (take_number 2 s2) (\<lambda>(mo, s3).
     Option.bind (expect (CHR ''-'') s3) (\<lambda>s4.
     Option.bind (take_number 2 s4) (\<lambda>(d, s5).
     Option.bind (expect (CHR ''T'') s5) (\<lambda>s6.
     Option.bind (take_number 2 s6) (\<lambda>(h, s7).
     Option.bind (expect (CHR '':'') s7) (\<lambda>s8.
     Option.bind (take_number 2 s8) (\<lambda>(mi, s9).
     Option.bind (expect (CHR '':'') s9) (\<lambda>s10.
     Option.bind (take_number 2 s10) (\<lambda>(sec, s11).
     Option.bind (parse_fraction s11) (\<lambda>(us, s12).
     Option.bind (parse_designator s12) (\<lambda>z.
       (let dt = \<lparr>year = y, month = mo, day = d, hour = h, minute = mi, second = sec,
                  microsecond = us\<rparr>
        in if valid_datetime dt then Some (dt, z) else None))))))))))))))"

section \<open>The stages behind the tools\<close>

subsection \<open>Datasets and files\<close>

text \<open>
  Modelled from the spec: \<^verbatim>\<open>tools/data_tools.py\<close> (\<^verbatim>\<open>sync_tables\<close>,
  \<^verbatim>\<open>detect_anomalies_and_drift\<close>) is not among the sources. A dataset is an ordered
  sequence of rows, each a mapping from column name to typed value, with the columns
  the header declares; a cell that is empty, a null sentinel or absent is \<open>Missing\<close>.
  A file system maps a path to a file and says which paths can be written.
\<close>

datatype cell = Missing | Num rat | Text string | Flag bool

type_synonym row = "(string \<times> cell) list"

record dataset =
  columns :: "string list"
  rows :: "row list"

datatype content = Tabular dataset | Unparsable

record fs =
  files :: "string \<rightharpoonup> content"
  writable :: "string \<Rightarrow> bool"

text \<open>
  Modelled from the spec: the value of a row in a column (\<open>Missing\<close> when the row does
  not have the column), and schema alignment: every row gets every declared column, in
  the declared order, a missing one filled with the sentinel \<open>Missing\<close>.
\<close>

definition cell_at :: "row \<Rightarrow> string \<Rightarrow> cell" where
  "cell_at r c = (case map_of r c of None \<Rightarrow> Missing | Some v \<Rightarrow> v)"

definition align_row :: "string list \<Rightarrow> row \<Rightarrow> row" where
  "align_row cols r = map (\<lambda>c. (c, cell_at r c)) cols"

text \<open>
  Modelled from the spec: two rows are exact duplicates when all column values are
  equal. Removing duplicates scans the rows in order and keeps a row unless an earlier
  row had the same values (keep first occurrence, stable order).
\<close>

fun drop_duplicates :: "('a \<Rightarrow> 'b) \<Rightarrow> 'b list \<Rightarrow> 'a list \<Rightarrow> 'a list" where
  "drop_duplicates key seen [] = []"
| "drop_duplicates key seen (r # rs) =
     (if key r \<in> set seen then drop_duplicates key seen rs
      else r # drop_duplicates key (key r # seen) rs)"

definition duplicate_count :: "dataset \<Rightarrow> nat" where
  "duplicate_count ds =
     length (rows ds) - length (drop_duplicates (align_row (columns ds)) [] (rows ds))"

subsection \<open>Repair Engine\<close>

text \<open>
  Modelled from the spec: section 4.4 (the source of \<^verbatim>\<open>sync_tables\<close> is missing),
  load the dataset, remove exact-duplicate rows, align the schema, write the result to
  a new location derived from the input path, return that location;
  \<open>DataAccessError\<close> on read failure, \<open>WriteError\<close> if the destination cannot be
  created. The spec fixes of the new name only that it is derived from the input path
  and is not the input path; a suffix is appended here.
\<close>

definition repair_dataset :: "dataset \<Rightarrow> dataset" where
  "repair_dataset ds =
     (let kept = drop_duplicates (align_row (columns ds)) [] (rows ds)
      in \<lparr>columns = columns ds, rows = map (align_row (columns ds)) kept\<rparr>)"

definition cleaned_path_of :: "string \<Rightarrow> string" where
  "cleaned_path_of p = p @ ''.cleaned''"

definition load_dataset :: "fs \<Rightarrow> string \<Rightarrow> error + dataset" where
  "load_dataset w p =
     (case files w p of
        Some (Tabular ds) \<Rightarrow> Inr ds
      | _ \<Rightarrow> Inl DataAccessError)"

definition repair :: "string \<Rightarrow> fs \<Rightarrow> (error + string) \<times> fs" where
  "repair file_path w =
     (case load_dataset w file_path of
        Inl e \<Rightarrow> (Inl e, w)
      | Inr ds \<Rightarrow>
          (let dest = cleaned_path_of file_path in
           if writable w dest
           then (Inr dest, w\<lparr>files := (files w)(dest \<mapsto> Tabular (repair_dataset ds))\<rparr>)
           else (Inl WriteError, w)))"

subsection \<open>Drift and Anomaly Detector\<close>

text \<open>
  Modelled from the spec: sections 3 and 4.2 (the source of
  \<^verbatim>\<open>detect_anomalies_and_drift\<close> is missing): profiles, anomalies, and the three
  detection steps in their order. The spec's example threshold of 20 percent is used.
  The spec does not say what the relative change from a baseline value 0 is; it is
  undefined here, and an undefined change does not exceed the threshold.
\<close>

datatype dtype = Numeric | TextType | Boolean | Datetime | Unknown

record stats =
  stat_min :: rat
  stat_max :: rat
  mean :: rat
  std :: rat

record column_profile =
  dtype :: dtype
  missing_count :: nat
  numeric_stats :: "stats option"

record profile =
  row_count :: nat
  profile_columns :: "(string \<times> column_profile) list"

datatype anomaly_kind = SchemaDrift | DistributionShift | DuplicateRows

record anomaly =
  kind :: anomaly_kind
  affected :: "string list"
  description :: string

definition threshold :: rat where
  "threshold = 1 / 5"

definition relative_change :: "rat \<Rightarrow> rat \<Rightarrow> rat option" where
  "relative_change b c = (if b = 0 then None else Some (\<bar>c - b\<bar> / \<bar>b\<bar>))"

definition exceeds :: "rat \<Rightarrow> rat \<Rightarrow> bool" where
  "exceeds b c = (case relative_change b c of None \<Rightarrow> False | Some r \<Rightarrow> threshold < r)"

definition column_anomaly :: "anomaly_kind \<Rightarrow> string \<Rightarrow> string \<Rightarrow> anomaly" where
  "column_anomaly k d c = \<lparr>kind = k, affected = [c], description = d\<rparr>"

definition schema_drift :: "profile \<Rightarrow> profile \<Rightarrow> anomaly list" where
  "schema_drift baseline current =
     map (column_anomaly SchemaDrift ''column removed'')
       (filter (\<lambda>c. map_of (profile_columns current) c = None)
          (map fst (profile_columns baseline)))
     @ map (column_anomaly SchemaDrift ''column added'')
       (filter (\<lambda>c. map_of (profile_columns baseline) c = None)
          (map fst (profile_columns current)))
     @ map (column_anomaly SchemaDrift ''type changed'')
       (map fst (filter (\<lambda>(c, cp).
          case map_of (profile_columns baseline) c of
            None \<Rightarrow> False
          | Some bp \<Rightarrow> dtype bp \<noteq> dtype cp) (profile_columns current)))"

definition shifted :: "column_profile option \<Rightarrow> column_profile \<Rightarrow> bool" where
  "shifted b cp =
     (case b of
        None \<Rightarrow> False
      | Some bp \<Rightarrow>
          dtype bp = Numeric \<and> dtype cp = Numeric \<and>
          (case (numeric_stats bp, numeric_stats cp) of
             (Some bs, Some cs) \<Rightarrow> exceeds (mean bs) (mean cs) \<or> exceeds (std bs) (std cs)
           | _ \<Rightarrow> False))"

definition distribution_shift :: "profile \<Rightarrow> profile \<Rightarrow> anomaly list" where
  "distribution_shift baseline current =
     map (column_anomaly DistributionShift ''distribution shift'')
       (map fst (filter (\<lambda>(c, cp). shifted (map_of (profile_columns baseline) c) cp)
          (profile_columns current)))"

definition duplicate_rows :: "dataset \<Rightarrow> anomaly list" where
  "duplicate_rows ds =
     (if duplicate_count ds = 0 then []
      else [\<lparr>kind = DuplicateRows, affected = [],
             description = dec (duplicate_count ds) @ '' duplicate rows''\<rparr>])"

text \<open>
  Modelled from the spec: \<^verbatim>\<open>detect(file_path, baseline_profile)\<close>. The current
  profile is computed by the Profiler, the parameter \<open>profiler\<close>. With the baseline
  absent, steps 1 and 2 are skipped.
\<close>

definition detect :: "(dataset \<Rightarrow> profile) \<Rightarrow> string \<Rightarrow> profile option \<Rightarrow> fs \<Rightarrow>
    error + anomaly list" where
  "detect profiler file_path baseline_profile w =
     (case load_dataset w file_path of
        Inl e \<Rightarrow> Inl e
      | Inr ds \<Rightarrow>
          (let current = profiler ds in
           Inr ((case baseline_profile of
                   None \<Rightarrow> []
                 | Some baseline \<Rightarrow>
                     schema_drift baseline current @ distribution_shift baseline current)
                @ duplicate_rows ds)))"

subsection \<open>The modelled stages as tools of the agents\<close>

datatype data = DProfile profile | DAnomalies "anomaly list"

text \<open>
  Modelled from the spec: the tools take what the agents pass, \<^verbatim>\<open>request.get("file_path")\<close>
  and \<^verbatim>\<open>session.state.get("baseline_profile")\<close>. A path that is not a string cannot be
  opened; a baseline that is neither \<^verbatim>\<open>None\<close> nor a profile is a configuration error.
\<close>

definition detect_tool :: "(dataset \<Rightarrow> profile) \<Rightarrow> data val \<Rightarrow> data val \<Rightarrow> fs \<Rightarrow>
    (error + data val) \<times> fs" where
  "detect_tool profiler file_path baseline_profile w =
     (case file_path of
        VStr p \<Rightarrow>
          (case baseline_profile of
             VNone \<Rightarrow> (map_sum id (\<lambda>a. VData (DAnomalies a)) (detect profiler p None w), w)
           | VData (DProfile b) \<Rightarrow>
               (map_sum id (\<lambda>a. VData (DAnomalies a)) (detect profiler p (Some b) w), w)
           | _ \<Rightarrow> (Inl ConfigurationError, w))
      | _ \<Rightarrow> (Inl DataAccessError, w))"

definition repair_tool :: "data val \<Rightarrow> fs \<Rightarrow> (error + data val) \<times> fs" where
  "repair_tool file_path w =
     (case file_path of
        VStr p \<Rightarrow> (case repair p w of (res, w') \<Rightarrow> (map_sum id VStr res, w'))
      | _ \<Rightarrow> (Inl DataAccessError, w))"

section \<open>Example inputs\<close>

text \<open>A clock reading and tools that succeed with fixed results, on a world without state.\<close>

definition demo_clock :: datetime where
  "demo_clock = \<lparr>year = 2024, month = 1, day = 15, hour = 10, minute = 30, second = 0,
                  microsecond = 0\<rparr>"

definition demo_env :: "(unit, unit) env" where
  "demo_env =
     \<lparr>profile_data = (\<lambda>p w. (Inr (VStr ''profile''), w)),
      detect_anomalies_and_drift = (\<lambda>p b w. (Inr (VStr ''anomalies''), w)),
      detect_pii = (\<lambda>p w. (Inr (VStr ''issues''), w)),
      sync_tables = (\<lambda>p w. (Inr (VStr ''data/current_cleaned.csv''), w)),
      generate_lineage_graph = (\<lambda>w. (Inr (VStr ''lineage''), w)),
      save_governance_report = (\<lambda>r w. (Inr (VStr ''reports/governance_report.json''), w)),
      utcnow = (\<lambda>w. demo_clock)\<rparr>"


definition demo_request :: "unit dict" where
  "demo_request = [''file_path'' \<mapsto> VStr ''data/current.csv'']"


definition full_session :: "unit session" where
  "full_session = \<lparr>state =
     [''baseline_profile'' \<mapsto> VStr ''baseline'', ''profile'' \<mapsto> VStr ''profile'',
      ''anomalies'' \<mapsto> VStr ''anomalies'', ''compliance_issues'' \<mapsto> VStr ''issues'',
      ''cleaned_path'' \<mapsto> VStr ''data/current_cleaned.csv'']\<rparr>"


text \<open>
  A file with three rows, the third an exact duplicate of the first, and a file without
  duplicates.
\<close>

definition demo_dataset :: dataset where
  "demo_dataset =
     \<lparr>columns = [''id'', ''email''],
      rows = [[(''id'', Num 1), (''email'', Text ''alice@example.com'')],
              [(''id'', Num 2), (''email'', Text ''b***@example.com'')],
              [(''id'', Num 1), (''email'', Text ''alice@example.com'')]]\<rparr>"

definition clean_dataset :: dataset where
  "clean_dataset =
     \<lparr>columns = [''id'', ''email''],
      rows = [[(''id'', Num 1), (''email'', Text ''alice@example.com'')],
              [(''id'', Num 2), (''email'', Text ''b***@example.com'')]]\<rparr>"

text \<open>A file without duplicates whose second row has no cell for \<open>email\<close>.\<close>

definition ragged_dataset :: dataset where
  "ragged_dataset =
     \<lparr>columns = [''id'', ''email''],
      rows = [[(''id'', Num 1), (''email'', Text ''alice@example.com'')],
              [(''id'', Num 2)]]\<rparr>"

definition demo_fs :: fs where
  "demo_fs =
     \<lparr>files = [''data/current.csv'' \<mapsto> Tabular demo_dataset,
               ''data/clean.csv'' \<mapsto> Tabular clean_dataset,
               ''data/ragged.csv'' \<mapsto> Tabular ragged_dataset],
      writable = (\<lambda>p. True)\<rparr>"

text \<open>
  A stand-in for the Profiler, the modelled tools as an environment of the agents (the
  tools that are not modelled raise), a request, and a run context without baseline.
  \<open>profile_x m s\<close> is a profile with the one numeric column \<open>x\<close> of mean \<open>m\<close> and
  standard deviation \<open>s\<close>.
\<close>

definition demo_profiler :: "dataset \<Rightarrow> profile" where
  "demo_profiler ds =
     \<lparr>row_count = length (rows ds),
      profile_columns =
        map (\<lambda>c. (c, \<lparr>dtype = Unknown, missing_count = 0, numeric_stats = None\<rparr>))
          (columns ds)\<rparr>"

definition spec_env :: "(dataset \<Rightarrow> profile) \<Rightarrow> (fs, data) env" where
  "spec_env profiler =
     \<lparr>profile_data = (\<lambda>p w. (Inl (OtherError ''not modelled''), w)),
      detect_anomalies_and_drift = detect_tool profiler,
      detect_pii = (\<lambda>p w. (Inl (OtherError ''not modelled''), w)),
      sync_tables = repair_tool,
      generate_lineage_graph = (\<lambda>w. (Inl (OtherError ''not modelled''), w)),
      save_governance_report = (\<lambda>r w. (Inl (OtherError ''not modelled''), w)),
      utcnow = (\<lambda>w. demo_clock)\<rparr>"

definition file_request :: "data dict" where
  "file_request = [''file_path'' \<mapsto> VStr ''data/current.csv'']"

definition no_baseline_session :: "data session" where
  "no_baseline_session = \<lparr>state = Map.empty\<rparr>"

definition profile_x :: "rat \<Rightarrow> rat \<Rightarrow> profile" where
  "profile_x m s =
     \<lparr>row_count = 2,
      profile_columns =
        [(''x'', \<lparr>dtype = Numeric, missing_count = 0,
                  numeric_stats = Some \<lparr>stat_min = 0, stat_max = 20, mean = m, std = s\<rparr>\<rparr>)]\<rparr>"

section \<open>Properties of the agents\<close>

subsection \<open>Timestamps\<close>

lemma digit_val_digit_char: "d < 10 \<Longrightarrow> digit_val (digit_char d) = Some d"
proof -
  assume "d < 10"
  then consider "d = 0" | "d = 1" | "d = 2" | "d = 3" | "d = 4" | "d = 5" | "d = 6"
    | "d = 7" | "d = 8" | "d = 9"
    by atomize_elim arith
  then show ?thesis
    by cases (simp_all add: digit_val_def digit_char_def)
qed

lemma parse_digits_append:
  "parse_digits acc (xs @ ys) = Option.bind (parse_digits acc xs) (\<lambda>a. parse_digits a ys)"
  by (induction xs arbitrary: acc) (auto split: option.splits)

lemma parse_digits_dec: "parse_digits acc (dec n) = Some (acc * 10 ^ length (dec n) + n)"
proof (induction n arbitrary: acc rule: dec.induct)
  case (1 n)
  show ?case
  proof (cases "n < 10")
    case True
    then show ?thesis
      by (subst (1 2) dec.simps) (simp add: digit_val_digit_char)
  next
    case False
    have "parse_digits acc (dec (n div 10)) =
            Some (acc * 10 ^ length (dec (n div 10)) + n div 10)"
      using "1.IH" [OF False] .
    with False show ?thesis
      by (subst (1 2) dec.simps)
         (simp add: parse_digits_append digit_val_digit_char algebra_simps)
  qed
qed

lemma parse_digits_zeros: "parse_digits 0 (replicate k (CHR ''0'') @ s) = parse_digits 0 s"
  by (induction k) (simp_all add: digit_val_def)

lemma length_dec_le: "n < 10 ^ w \<Longrightarrow> 0 < w \<Longrightarrow> length (dec n) \<le> w"
proof (induction n arbitrary: w rule: dec.induct)
  case (1 n)
  show ?case
  proof (cases "n < 10")
    case True
    with "1.prems" show ?thesis by (subst dec.simps) simp
  next
    case False
    from "1.prems" obtain v where w: "w = Suc v" by (cases w) auto
    with False "1.prems" have v: "0 < v" by (cases v) auto
    from "1.prems" w have "n div 10 < 10 ^ v"
      by (simp add: less_mult_imp_div_less mult.commute)
    with "1.IH" [OF False _ v] have "length (dec (n div 10)) \<le> v" by simp
    with False w show ?thesis by (subst dec.simps) simp
  qed
qed

lemma take_number_zfill:
  assumes "n < 10 ^ w" "0 < w"
  shows "take_number w (zfill w (dec n) @ rest) = Some (n, rest)"
proof -
  have len: "length (zfill w (dec n)) = w"
    using assms by (simp add: zfill_def length_dec_le)
  have "parse_digits 0 (zfill w (dec n)) = Some n"
    by (simp add: zfill_def parse_digits_zeros parse_digits_dec)
  with len show ?thesis
    by (simp add: take_number_def)
qed

lemma expect_Cons: "expect c (c # s) = Some s"
  by (simp add: expect_def)

text \<open>What \<open>isoformat\<close> writes is read back as the same fields, without designator.\<close>

lemma parse_iso8601_isoformat:
  assumes "valid_datetime dt"
  shows "parse_iso8601 (isoformat dt) = Some (dt, False)"
proof -
  from assms have b: "year dt < 10 ^ 4" "month dt < 10 ^ 2" "day dt < 10 ^ 2"
    "hour dt < 10 ^ 2" "minute dt < 10 ^ 2" "second dt < 10 ^ 2" "microsecond dt < 10 ^ 6"
    by (auto simp: valid_datetime_def days_in_month_def split: if_splits)
  have frac: "parse_fraction
      (if microsecond dt = 0 then [] else ''.'' @ zfill 6 (dec (microsecond dt)))
     = Some (microsecond dt, [])"
    using take_number_zfill [OF b(7), of "[]"] by (simp add: parse_fraction_def)
  have same: "\<lparr>year = year dt, month = month dt, day = day dt, hour = hour dt,
      minute = minute dt, second = second dt, microsecond = microsecond dt\<rparr> = dt"
    by (cases dt) simp
  show ?thesis
    unfolding parse_iso8601_def isoformat_def
    using assms frac
    by (simp add: take_number_zfill [OF b(1)] take_number_zfill [OF b(2)]
        take_number_zfill [OF b(3)] take_number_zfill [OF b(4)] take_number_zfill [OF b(5)]
        take_number_zfill [OF b(6)] expect_Cons parse_designator_def Let_def same)
qed

lemma demo_clock_valid: "valid_datetime demo_clock"
  by (simp add: valid_datetime_def demo_clock_def days_in_month_def)

lemma isoformat_demo_clock: "isoformat demo_clock = ''2024-01-15T10:30:00''"
  by (simp add: isoformat_def demo_clock_def zfill_def dec.simps digit_char_def)

subsection \<open>The Reporting agent on the example inputs\<close>

lemma full_reporting_run:
  "ReportingAgent_act demo_env demo_request full_session () =
     (Inr (VDict [(''report_path'', VStr ''reports/governance_report.json''),
                  (''report'', VDict [(''timestamp'', VStr ''2024-01-15T10:30:00''),
                     (''profile'', VStr ''profile''), (''anomalies'', VStr ''anomalies''),
                     (''compliance_issues'', VStr ''issues''),
                     (''cleaned_path'', VStr ''data/current_cleaned.csv''),
                     (''lineage'', VStr ''lineage'')])]),
      \<lparr>state = (state full_session)
         (''report_path'' \<mapsto> VStr ''reports/governance_report.json'')\<rparr>, ())"
  by (simp add: ReportingAgent_act_def demo_env_def dict_get_def isoformat_demo_clock
      full_session_def)


subsection \<open>Report contents\<close>

text \<open>
  C1. Whenever the Reporting agent returns, the report it built has exactly the six
  keys \<open>timestamp\<close>, \<open>profile\<close>, \<open>anomalies\<close>, \<open>compliance_issues\<close>, \<open>cleaned_path\<close>,
  \<open>lineage\<close>, and its timestamp is an ISO-8601 date and time that reads back as the
  UTC clock reading taken after the lineage call. The string carries no zone
  designator: that it is UTC comes from \<^verbatim>\<open>utcnow\<close>.
\<close>

theorem report_six_keys_iso_timestamp:
  assumes "ReportingAgent_act env request session w = (Inr ret, session', w')"
    and "\<forall>v. valid_datetime (utcnow env v)"
  shows "\<exists>report report_path ts lineage w1.
           ret = VDict [(''report_path'', report_path), (''report'', VDict report)] \<and>
           map fst report = [''timestamp'', ''profile'', ''anomalies'', ''compliance_issues'',
                             ''cleaned_path'', ''lineage''] \<and>
           generate_lineage_graph env w = (Inr lineage, w1) \<and>
           map_of report ''timestamp'' = Some (VStr ts) \<and>
           parse_iso8601 ts = Some (utcnow env w1, False)"
  using assms
  by (auto simp: ReportingAgent_act_def Let_def parse_iso8601_isoformat
      split: prod.splits sum.splits)

theorem report_six_keys_iso_timestamp_witness:
  "(\<forall>v. valid_datetime (utcnow demo_env v)) \<and>
   (\<exists>report. fst (ReportingAgent_act demo_env demo_request full_session ()) =
        Inr (VDict [(''report_path'', VStr ''reports/governance_report.json''),
                    (''report'', VDict report)]) \<and>
      map fst report = [''timestamp'', ''profile'', ''anomalies'', ''compliance_issues'',
                        ''cleaned_path'', ''lineage''] \<and>
      (\<exists>ts. map_of report ''timestamp'' = Some (VStr ts) \<and>
            parse_iso8601 ts = Some (utcnow demo_env (), False)))"
proof -
  have clock: "\<forall>v. valid_datetime (utcnow demo_env v)"
    by (simp add: demo_env_def demo_clock_valid)
  from report_six_keys_iso_timestamp [OF full_reporting_run clock] clock show ?thesis
    by (simp add: full_reporting_run)
qed

text \<open>
  C4. The report is a pure aggregation: its \<open>profile\<close>, \<open>anomalies\<close>,
  \<open>compliance_issues\<close> and \<open>cleaned_path\<close> are the values read from the run context,
  its \<open>lineage\<close> is what \<^verbatim>\<open>generate_lineage_graph\<close> returned, and this same report is
  what is handed to \<^verbatim>\<open>save_governance_report\<close>.
\<close>

theorem report_is_pure_aggregation:
  assumes "ReportingAgent_act env request session w = (Inr ret, session', w')"
  shows "\<exists>report report_path lineage w1.
           ret = VDict [(''report_path'', report_path), (''report'', VDict report)] \<and>
           generate_lineage_graph env w = (Inr lineage, w1) \<and>
           save_governance_report env (VDict report) w1 = (Inr report_path, w') \<and>
           map_of report ''profile'' = Some (dict_get (state session) ''profile'') \<and>
           map_of report ''anomalies'' = Some (dict_get (state session) ''anomalies'') \<and>
           map_of report ''compliance_issues'' =
             Some (dict_get (state session) ''compliance_issues'') \<and>
           map_of report ''cleaned_path'' = Some (dict_get (state session) ''cleaned_path'') \<and>
           map_of report ''lineage'' = Some lineage"
  using assms
  by (auto simp: ReportingAgent_act_def Let_def split: prod.splits sum.splits)

theorem report_is_pure_aggregation_witness:
  "\<exists>report. fst (ReportingAgent_act demo_env demo_request full_session ()) =
        Inr (VDict [(''report_path'', VStr ''reports/governance_report.json''),
                    (''report'', VDict report)]) \<and>
     map_of report ''profile'' = Some (VStr ''profile'') \<and>
     map_of report ''anomalies'' = Some (VStr ''anomalies'') \<and>
     map_of report ''compliance_issues'' = Some (VStr ''issues'') \<and>
     map_of report ''cleaned_path'' = Some (VStr ''data/current_cleaned.csv'') \<and>
     map_of report ''lineage'' = Some (VStr ''lineage'')"
proof -
  have "dict_get (state full_session) ''profile'' = VStr ''profile''"
    "dict_get (state full_session) ''anomalies'' = VStr ''anomalies''"
    "dict_get (state full_session) ''compliance_issues'' = VStr ''issues''"
    "dict_get (state full_session) ''cleaned_path'' = VStr ''data/current_cleaned.csv''"
    by (simp_all add: full_session_def dict_get_def)
  with report_is_pure_aggregation [OF full_reporting_run] show ?thesis
    by (simp add: full_reporting_run)
qed

subsection \<open>Frame of the run context\<close>

text \<open>
  C6. Each stage writes only the key of the run context that it owns: the Profiler
  \<open>profile\<close>, the Detector \<open>anomalies\<close>, the PII Scanner \<open>compliance_issues\<close>, the
  Repair Engine \<open>cleaned_path\<close>, Reporting \<open>report_path\<close>. Every other key holds after
  the call what it held before, whether the stage returned or raised.
\<close>

theorem stage_writes_only_own_key:
  "(k \<noteq> ''profile'' \<longrightarrow>
      state (fst (snd (DataProfilerAgent_act env request session w))) k = state session k) \<and>
   (k \<noteq> ''anomalies'' \<longrightarrow>
      state (fst (snd (DriftAnomalyAgent_act env request session w))) k = state session k) \<and>
   (k \<noteq> ''compliance_issues'' \<longrightarrow>
      state (fst (snd (ComplianceAgent_act env request session w))) k = state session k) \<and>
   (k \<noteq> ''cleaned_path'' \<longrightarrow>
      state (fst (snd (SyncRepairAgent_act env request session w))) k = state session k) \<and>
   (k \<noteq> ''report_path'' \<longrightarrow>
      state (fst (snd (ReportingAgent_act env request session w))) k = state session k)"
  by (simp add: DataProfilerAgent_act_def DriftAnomalyAgent_act_def ComplianceAgent_act_def
      SyncRepairAgent_act_def ReportingAgent_act_def Let_def split: prod.splits sum.splits)

theorem stage_writes_only_own_key_witness:
  "''baseline_profile'' \<noteq> ''profile'' \<and> ''baseline_profile'' \<noteq> ''anomalies'' \<and>
   ''baseline_profile'' \<noteq> ''compliance_issues'' \<and> ''baseline_profile'' \<noteq> ''cleaned_path'' \<and>
   ''baseline_profile'' \<noteq> ''report_path'' \<and>
   state (fst (snd (DataProfilerAgent_act demo_env demo_request full_session ())))
     ''baseline_profile'' = Some (VStr ''baseline'') \<and>
   state (fst (snd (DriftAnomalyAgent_act demo_env demo_request full_session ())))
     ''baseline_profile'' = Some (VStr ''baseline'') \<and>
   state (fst (snd (ComplianceAgent_act demo_env demo_request full_session ())))
     ''baseline_profile'' = Some (VStr ''baseline'') \<and>
   state (fst (snd (SyncRepairAgent_act demo_env demo_request full_session ())))
     ''baseline_profile'' = Some (VStr ''baseline'') \<and>
   state (fst (snd (ReportingAgent_act demo_env demo_request full_session ())))
     ''baseline_profile'' = Some (VStr ''baseline'')"
  using stage_writes_only_own_key
    [of "''baseline_profile''" demo_env demo_request full_session "()"]
  by (simp add: full_session_def)

subsection \<open>Errors and missing inputs\<close>














subsection \<open>Constructing and running the orchestrators\<close>

text \<open>
  C10. When the agent framework cannot be imported, \<^verbatim>\<open>create_eagle_agent\<close> and
  \<^verbatim>\<open>create_llm_eagle_agent\<close> raise \<^verbatim>\<open>RuntimeError\<close>, for every model name; neither
  returns an orchestrator.
\<close>

theorem create_agents_raise_without_adk:
  "create_eagle_agent False =
     Inl (RuntimeError ''Google ADK is not available. Install google-adk to use agents.'') \<and>
   create_llm_eagle_agent False model =
     Inl (RuntimeError ''Google ADK is not available. Install google-adk to use LLM agents.'') \<and>
   create_eagle_agent False \<noteq> Inr orch \<and>
   create_llm_eagle_agent False model \<noteq> Inr orch'"
  by (simp add: create_eagle_agent_def create_llm_eagle_agent_def)
















section \<open>Properties of the modelled stages\<close>

subsection \<open>Removing duplicates\<close>

lemma drop_duplicates_map:
  "map key (drop_duplicates key seen xs) = drop_duplicates (\<lambda>k. k) seen (map key xs)"
  by (induction xs arbitrary: seen) simp_all

lemma remdups_snoc: "remdups (ys @ [x]) = filter (\<lambda>y. y \<noteq> x) (remdups ys) @ [x]"
  by (induction ys) auto

lemma first_occurrences_Cons:
  "rev (remdups (rev (x # xs))) = x # filter (\<lambda>y. y \<noteq> x) (rev (remdups (rev xs)))"
  by (simp add: remdups_snoc rev_filter)

lemma drop_duplicates_first_occurrences:
  "drop_duplicates (\<lambda>k. k) seen xs = filter (\<lambda>y. y \<notin> set seen) (rev (remdups (rev xs)))"
proof (induction xs arbitrary: seen)
  case Nil
  show ?case by simp
next
  case (Cons x xs)
  have "filter (\<lambda>y. y \<notin> set seen) (filter (\<lambda>y. y \<noteq> x) ys) =
        filter (\<lambda>y. y \<notin> set (x # seen)) ys" for ys
    by (induction ys) auto
  moreover have "x \<in> set seen \<Longrightarrow>
      filter (\<lambda>y. y \<notin> set seen) (filter (\<lambda>y. y \<noteq> x) ys) = filter (\<lambda>y. y \<notin> set seen) ys" for ys
    by (induction ys) auto
  ultimately show ?case
    unfolding first_occurrences_Cons
    by (simp add: Cons.IH del: remdups.simps rev.simps)
qed

lemma repair_rows_first_occurrences:
  "rows (repair_dataset ds) = rev (remdups (rev (map (align_row (columns ds)) (rows ds))))"
  by (simp add: repair_dataset_def drop_duplicates_map drop_duplicates_first_occurrences)

lemma drop_duplicates_subseq: "subseq (drop_duplicates key seen xs) xs"
  by (induction xs arbitrary: seen) auto

lemma drop_duplicates_distinct_id:
  "distinct (map key xs) \<Longrightarrow> set (map key xs) \<inter> set seen = {} \<Longrightarrow>
     drop_duplicates key seen xs = xs"
  by (induction xs arbitrary: seen) auto


lemma fst_align_row: "map fst (align_row cols r) = cols"
  by (simp add: align_row_def o_def)


lemma duplicate_count_repair: "duplicate_count (repair_dataset ds) = 0"
proof -
  let ?cols = "columns ds"
  let ?rs = "rows (repair_dataset ds)"
  have d: "distinct ?rs"
    by (simp add: repair_rows_first_occurrences)
  have "map (align_row ?cols) ?rs = ?rs"
  proof (rule map_idI)
    fix r assume "r \<in> set ?rs"
    then obtain r0 where "r = align_row ?cols r0"
      by (auto simp: repair_dataset_def)
    then show "align_row ?cols r = r"
      by (simp add: align_row_def cell_at_def o_def map_of_map_restrict restrict_map_def
          cong: map_cong)
  qed
  with d have "drop_duplicates (align_row ?cols) [] ?rs = ?rs"
    by (simp add: drop_duplicates_distinct_id)
  moreover have "columns (repair_dataset ds) = ?cols"
    by (simp add: repair_dataset_def)
  ultimately show ?thesis
    by (simp add: duplicate_count_def)
qed

subsection \<open>The example files\<close>

lemma load_demo: "load_dataset demo_fs ''data/current.csv'' = Inr demo_dataset"
  by (simp add: load_dataset_def demo_fs_def)

lemma load_clean: "load_dataset demo_fs ''data/clean.csv'' = Inr clean_dataset"
  by (simp add: load_dataset_def demo_fs_def)

lemma repair_demo_dataset: "repair_dataset demo_dataset = clean_dataset"
  by (simp add: repair_dataset_def demo_dataset_def clean_dataset_def align_row_def cell_at_def)

lemma duplicate_count_demo: "duplicate_count demo_dataset = 1"
  by (simp add: duplicate_count_def demo_dataset_def align_row_def cell_at_def)

lemma duplicate_rows_demo:
  "duplicate_rows demo_dataset =
     [\<lparr>kind = DuplicateRows, affected = [], description = ''1 duplicate rows''\<rparr>]"
  by (simp add: duplicate_rows_def duplicate_count_demo dec.simps digit_char_def)

subsection \<open>Repair Engine\<close>

text \<open>
  C7. Repairing a readable dataset whose destination can be written succeeds, returns
  a path other than the input path and leaves the original file as it was. The cleaned
  dataset has no two equal rows (the Detector counts no duplicate in it), holds the
  first occurrence of each row in the original order, has the columns of the original,
  every row with every column, and no more rows than the original.
\<close>

theorem repair_removes_duplicates_keeps_first:
  assumes "load_dataset w p = Inr ds" and "writable w (cleaned_path_of p)"
  shows "\<exists>w' cleaned.
           repair p w = (Inr (cleaned_path_of p), w') \<and>
           cleaned_path_of p \<noteq> p \<and>
           load_dataset w' p = Inr ds \<and>
           load_dataset w' (cleaned_path_of p) = Inr cleaned \<and>
           distinct (rows cleaned) \<and>
           duplicate_count cleaned = 0 \<and>
           rows cleaned = rev (remdups (rev (map (align_row (columns ds)) (rows ds)))) \<and>
           subseq (rows cleaned) (map (align_row (columns ds)) (rows ds)) \<and>
           columns cleaned = columns ds \<and>
           (\<forall>r \<in> set (rows cleaned). map fst r = columns ds) \<and>
           length (rows cleaned) \<le> length (rows ds)"
proof -
  let ?dest = "cleaned_path_of p"
  let ?w' = "w\<lparr>files := (files w)(?dest \<mapsto> Tabular (repair_dataset ds))\<rparr>"
  have ne: "?dest \<noteq> p"
    by (simp add: cleaned_path_of_def)
  have run: "repair p w = (Inr ?dest, ?w')"
    using assms by (simp add: repair_def Let_def)
  have orig: "load_dataset ?w' p = Inr ds"
    using assms(1) ne by (simp add: load_dataset_def)
  have new: "load_dataset ?w' ?dest = Inr (repair_dataset ds)"
    by (simp add: load_dataset_def)
  have first: "rows (repair_dataset ds) =
      rev (remdups (rev (map (align_row (columns ds)) (rows ds))))"
    by (rule repair_rows_first_occurrences)
  have sub: "subseq (rows (repair_dataset ds)) (map (align_row (columns ds)) (rows ds))"
    by (simp add: repair_dataset_def drop_duplicates_subseq subseq_map)
  have cols: "columns (repair_dataset ds) = columns ds"
    by (simp add: repair_dataset_def)
  have al: "\<forall>r \<in> set (rows (repair_dataset ds)). map fst r = columns ds"
    by (auto simp: repair_dataset_def fst_align_row)
  have len: "length (rows (repair_dataset ds)) \<le> length (rows ds)"
    using length_remdups_leq [of "rev (map (align_row (columns ds)) (rows ds))"]
    by (simp add: first)
  have dist: "distinct (rows (repair_dataset ds))"
    by (simp add: first)
  from run ne orig new dist duplicate_count_repair [of ds] first sub cols al len
  show ?thesis by blast
qed

theorem repair_removes_duplicates_keeps_first_witness:
  "load_dataset demo_fs ''data/current.csv'' = Inr demo_dataset \<and>
   writable demo_fs (cleaned_path_of ''data/current.csv'') \<and>
   duplicate_count demo_dataset = 1 \<and>
   fst (repair ''data/current.csv'' demo_fs) = Inr ''data/current.csv.cleaned'' \<and>
   load_dataset (snd (repair ''data/current.csv'' demo_fs)) ''data/current.csv'' =
     Inr demo_dataset \<and>
   load_dataset (snd (repair ''data/current.csv'' demo_fs)) ''data/current.csv.cleaned'' =
     Inr clean_dataset \<and>
   distinct (rows clean_dataset) \<and>
   length (rows clean_dataset) \<le> length (rows demo_dataset)"
proof -
  have wr: "writable demo_fs (cleaned_path_of ''data/current.csv'')"
    by (simp add: demo_fs_def)
  have run: "repair ''data/current.csv'' demo_fs =
      (Inr ''data/current.csv.cleaned'',
       demo_fs\<lparr>files := (files demo_fs)(''data/current.csv.cleaned'' \<mapsto> Tabular clean_dataset)\<rparr>)"
    using wr by (simp add: repair_def load_demo Let_def repair_demo_dataset cleaned_path_of_def)
  have new: "load_dataset (snd (repair ''data/current.csv'' demo_fs))
      ''data/current.csv.cleaned'' = Inr clean_dataset"
    by (simp add: run load_dataset_def)
  from repair_removes_duplicates_keeps_first [OF load_demo wr] obtain w' cleaned where
    r: "repair ''data/current.csv'' demo_fs = (Inr (cleaned_path_of ''data/current.csv''), w')"
    and o: "load_dataset w' ''data/current.csv'' = Inr demo_dataset"
    and n: "load_dataset w' (cleaned_path_of ''data/current.csv'') = Inr cleaned"
    and d: "distinct (rows cleaned)"
    and l: "length (rows cleaned) \<le> length (rows demo_dataset)"
    by blast
  from r have w': "w' = snd (repair ''data/current.csv'' demo_fs)" by simp
  from n new have c: "cleaned = clean_dataset"
    by (simp add: w' cleaned_path_of_def)
  from r have f: "fst (repair ''data/current.csv'' demo_fs) = Inr ''data/current.csv.cleaned''"
    by (simp add: cleaned_path_of_def)
  from o have o': "load_dataset (snd (repair ''data/current.csv'' demo_fs))
      ''data/current.csv'' = Inr demo_dataset"
    by (simp add: w')
  from d l have d': "distinct (rows clean_dataset)"
    and l': "length (rows clean_dataset) \<le> length (rows demo_dataset)"
    by (simp_all add: c)
  from load_demo wr duplicate_count_demo f o' new d' l' show ?thesis
    by (intro conjI)
qed





subsection \<open>Detector\<close>

text \<open>
  C3. With \<open>baseline_profile\<close> missing from the run context, or \<^verbatim>\<open>None\<close>, the
  Detector stage on a readable file does not raise: it returns and stores the
  duplicate-rows findings only, at most one anomaly, none of schema drift or
  distribution shift.
\<close>

theorem detector_without_baseline_only_duplicates:
  assumes "detect_anomalies_and_drift env = detect_tool profiler"
    and "dict_get request ''file_path'' = VStr p"
    and "load_dataset w p = Inr ds"
    and "dict_get (state session) ''baseline_profile'' = VNone"
  shows "\<exists>anomalies.
           DriftAnomalyAgent_act env request session w =
             (Inr (VDict [(''anomalies'', VData (DAnomalies anomalies))]),
              session\<lparr>state := (state session)(''anomalies'' \<mapsto> VData (DAnomalies anomalies))\<rparr>,
              w) \<and>
           anomalies = duplicate_rows ds \<and>
           (\<forall>a \<in> set anomalies. kind a = DuplicateRows) \<and>
           length anomalies \<le> 1"
  using assms
  by (simp add: DriftAnomalyAgent_act_def detect_tool_def detect_def duplicate_rows_def)

theorem detector_without_baseline_only_duplicates_witness:
  "detect_anomalies_and_drift (spec_env demo_profiler) = detect_tool demo_profiler \<and>
   dict_get file_request ''file_path'' = VStr ''data/current.csv'' \<and>
   load_dataset demo_fs ''data/current.csv'' = Inr demo_dataset \<and>
   dict_get (state no_baseline_session) ''baseline_profile'' = VNone \<and>
   fst (DriftAnomalyAgent_act (spec_env demo_profiler) file_request no_baseline_session demo_fs) =
     Inr (VDict [(''anomalies'', VData (DAnomalies
       [\<lparr>kind = DuplicateRows, affected = [], description = ''1 duplicate rows''\<rparr>]))])"
proof -
  have h1: "detect_anomalies_and_drift (spec_env demo_profiler) = detect_tool demo_profiler"
    by (simp add: spec_env_def)
  have h2: "dict_get file_request ''file_path'' = VStr ''data/current.csv''"
    by (simp add: file_request_def dict_get_def)
  have h4: "dict_get (state no_baseline_session) ''baseline_profile'' = VNone"
    by (simp add: no_baseline_session_def dict_get_def)
  from detector_without_baseline_only_duplicates [OF h1 h2 load_demo h4]
  have "fst (DriftAnomalyAgent_act (spec_env demo_profiler) file_request no_baseline_session
               demo_fs) =
     Inr (VDict [(''anomalies'', VData (DAnomalies (duplicate_rows demo_dataset)))])"
    by auto
  with h1 h2 load_demo h4 show ?thesis
    by (simp add: duplicate_rows_demo)
qed

lemma kind_schema_drift: "a \<in> set (schema_drift b c) \<Longrightarrow> kind a = SchemaDrift"
  by (auto simp: schema_drift_def column_anomaly_def)

lemma kind_duplicate_rows: "a \<in> set (duplicate_rows ds) \<Longrightarrow> kind a = DuplicateRows"
  by (auto simp: duplicate_rows_def split: if_splits)

lemma distribution_shift_column:
  assumes "distinct (map fst (profile_columns current))"
    and "map_of (profile_columns current) x = Some cp"
  shows "(\<exists>a \<in> set (distribution_shift baseline current).
            kind a = DistributionShift \<and> affected a = [x]) \<longleftrightarrow>
         shifted (map_of (profile_columns baseline) x) cp"
proof -
  have mem: "(x, cp') \<in> set (profile_columns current) \<longleftrightarrow> cp' = cp" for cp'
    using assms(2) map_of_eq_Some_iff [OF assms(1), of x cp'] by auto
  have "(\<exists>a \<in> set (distribution_shift baseline current).
            kind a = DistributionShift \<and> affected a = [x]) \<longleftrightarrow>
        (\<exists>cp'. (x, cp') \<in> set (profile_columns current) \<and>
               shifted (map_of (profile_columns baseline) x) cp')"
    by (force simp: distribution_shift_def column_anomaly_def)
  then show ?thesis
    by (simp add: mem)
qed

lemma exceeds_iff: "exceeds b c \<longleftrightarrow> b \<noteq> 0 \<and> 1 / 5 < \<bar>c - b\<bar> / \<bar>b\<bar>"
  by (simp add: exceeds_def relative_change_def threshold_def)

text \<open>
  C9. For a numeric column with statistics in both the baseline and the current
  profile, the Detector reports a distribution shift of that column exactly when the
  relative change of the mean or of the standard deviation is more than 20 percent.
  From mean 10 to 13 it is reported, from 10 to 11 it is not.
\<close>

theorem distribution_shift_flagged_iff_exceeds:
  assumes "load_dataset w p = Inr ds"
    and "distinct (map fst (profile_columns (profiler ds)))"
    and "map_of (profile_columns (profiler ds)) x = Some cp"
    and "map_of (profile_columns baseline) x = Some bp"
    and "dtype bp = Numeric" and "dtype cp = Numeric"
    and "numeric_stats bp = Some bs" and "numeric_stats cp = Some cs"
  shows "\<exists>anomalies.
           detect profiler p (Some baseline) w = Inr anomalies \<and>
           ((\<exists>a \<in> set anomalies. kind a = DistributionShift \<and> affected a = [x]) \<longleftrightarrow>
            (mean bs \<noteq> 0 \<and> 1 / 5 < \<bar>mean cs - mean bs\<bar> / \<bar>mean bs\<bar>) \<or>
            (std bs \<noteq> 0 \<and> 1 / 5 < \<bar>std cs - std bs\<bar> / \<bar>std bs\<bar>))"
proof -
  let ?cur = "profiler ds"
  let ?all = "schema_drift baseline ?cur @ distribution_shift baseline ?cur @ duplicate_rows ds"
  have run: "detect profiler p (Some baseline) w = Inr ?all"
    using assms(1) by (simp add: detect_def Let_def)
  have "(\<exists>a \<in> set ?all. kind a = DistributionShift \<and> affected a = [x]) \<longleftrightarrow>
        (\<exists>a \<in> set (distribution_shift baseline ?cur).
            kind a = DistributionShift \<and> affected a = [x])"
    using kind_schema_drift [of _ baseline ?cur] kind_duplicate_rows [of _ ds] by fastforce
  also have "\<dots> \<longleftrightarrow> shifted (map_of (profile_columns baseline) x) cp"
    using assms(2,3) by (rule distribution_shift_column)
  also have "\<dots> \<longleftrightarrow> (mean bs \<noteq> 0 \<and> 1 / 5 < \<bar>mean cs - mean bs\<bar> / \<bar>mean bs\<bar>) \<or>
            (std bs \<noteq> 0 \<and> 1 / 5 < \<bar>std cs - std bs\<bar> / \<bar>std bs\<bar>)"
    using assms(4-8) by (simp add: shifted_def exceeds_iff)
  finally show ?thesis
    using run by simp
qed

theorem distribution_shift_flagged_iff_exceeds_witness:
  "(1 / 5 :: rat) < \<bar>13 - 10\<bar> / \<bar>10\<bar> \<and>
   (\<exists>anomalies. detect (\<lambda>ds. profile_x 13 2) ''data/clean.csv'' (Some (profile_x 10 2)) demo_fs =
        Inr anomalies \<and>
      (\<exists>a \<in> set anomalies. kind a = DistributionShift \<and> affected a = [''x''])) \<and>
   \<not> (1 / 5 :: rat) < \<bar>11 - 10\<bar> / \<bar>10\<bar> \<and>
   (\<exists>anomalies. detect (\<lambda>ds. profile_x 11 2) ''data/clean.csv'' (Some (profile_x 10 2)) demo_fs =
        Inr anomalies \<and>
      \<not> (\<exists>a \<in> set anomalies. kind a = DistributionShift \<and> affected a = [''x'']))"
proof -
  let ?cp = "\<lambda>m. \<lparr>dtype = Numeric, missing_count = 0,
      numeric_stats = Some \<lparr>stat_min = 0, stat_max = 20, mean = m, std = 2\<rparr>\<rparr>"
  let ?st = "\<lambda>m. \<lparr>stat_min = 0, stat_max = 20, mean = m, std = (2::rat)\<rparr>"
  have d: "distinct (map fst (profile_columns (profile_x m 2)))" for m
    by (simp add: profile_x_def)
  have l: "map_of (profile_columns (profile_x m 2)) ''x'' = Some (?cp m)" for m
    by (simp add: profile_x_def)
  have a: "\<exists>anomalies. detect (\<lambda>ds. profile_x 13 2) ''data/clean.csv'' (Some (profile_x 10 2))
        demo_fs = Inr anomalies \<and>
      (\<exists>a \<in> set anomalies. kind a = DistributionShift \<and> affected a = [''x''])"
    using distribution_shift_flagged_iff_exceeds [of demo_fs "''data/clean.csv''" clean_dataset "\<lambda>ds. profile_x 13 2" "''x''"
        "?cp 13" "profile_x 10 2" "?cp 10" "?st 10" "?st 13", OF load_clean d l l]
    by simp
  have b: "\<exists>anomalies. detect (\<lambda>ds. profile_x 11 2) ''data/clean.csv'' (Some (profile_x 10 2))
        demo_fs = Inr anomalies \<and>
      \<not> (\<exists>a \<in> set anomalies. kind a = DistributionShift \<and> affected a = [''x''])"
    using distribution_shift_flagged_iff_exceeds [of demo_fs "''data/clean.csv''" clean_dataset "\<lambda>ds. profile_x 11 2" "''x''"
        "?cp 11" "profile_x 10 2" "?cp 10" "?st 10" "?st 11", OF load_clean d l l]
    by simp
  from a b show ?thesis
    by simp
qed

end
